theory Spec2Isabelle
  imports Main
begin

section \<open>The HTTP repository of webapp-core\<close>

text \<open>
  A shallow embedding of \<^verbatim>\<open>src/repositories/http.repository.ts\<close>: the abstract class
  \<^verbatim>\<open>HttpRepository\<close> with its cache of in-flight GET and HEAD requests, its conversion
  of the response text to the caller's type, and its classification of failed responses.
  JavaScript strings are modelled as \<open>string\<close>; a character outside ASCII is the bytes
  of its UTF-8 encoding.
\<close>

subsection \<open>Strings and numbers of the JavaScript runtime\<close>

text \<open>\<^verbatim>\<open>String.prototype.startsWith\<close>.\<close>

fun startsWith :: "string \<Rightarrow> string \<Rightarrow> bool" where
  "startsWith s [] = True"
| "startsWith [] (p # ps) = False"
| "startsWith (c # cs) (p # ps) = (c = p \<and> startsWith cs ps)"

text \<open>\<^verbatim>\<open>String.prototype.endsWith\<close>, used to state properties of messages.\<close>

definition endsWith :: "string \<Rightarrow> string \<Rightarrow> bool" where
  "endsWith s p = startsWith (rev s) (rev p)"

text \<open>
  The decimal text of a non-negative integer, as a template literal prints the number
  \<^verbatim>\<open>response.status\<close>.
\<close>

definition digit_char :: "nat \<Rightarrow> char" where
  "digit_char d = ''0123456789'' ! d"

fun show_nat :: "nat \<Rightarrow> string" where
  "show_nat n = (if n < 10 then [digit_char n] else show_nat (n div 10) @ [digit_char (n mod 10)])"

subsection \<open>Requests, responses and errors\<close>

datatype Methods = HEAD | GET | POST | DELETE | PUT

fun method_text :: "Methods \<Rightarrow> string" where
  "method_text HEAD = ''HEAD''"
| "method_text GET = ''GET''"
| "method_text POST = ''POST''"
| "method_text DELETE = ''DELETE''"
| "method_text PUT = ''PUT''"

text \<open>
  The \<^verbatim>\<open>Response\<close> of the fetch API, with the text that \<^verbatim>\<open>response.text()\<close>
  resolves to. \<^verbatim>\<open>response.ok\<close> is true for a status from 200 to 299.
\<close>

record Response =
  status :: nat
  statusText :: string
  bodyText :: string

definition ok :: "Response \<Rightarrow> bool" where
  "ok r = (200 \<le> status r \<and> status r \<le> 299)"

text \<open>
  Modelled from the spec: the classes \<^verbatim>\<open>NetError\<close> (models/errors/net.error) and
  \<^verbatim>\<open>BackError\<close> (models/errors/back.error) are imported by the source and are not
  part of it. The spec gives an error a kind (Network or Backend), a message, an optional
  HTTP status and an optional raw body; the constructor takes the message and, for
  \<^verbatim>\<open>NetError\<close>, an optional status.
\<close>

record error_fields =
  message :: string
  error_status :: "nat option"
  error_body :: "string option"

definition new_error :: "string \<Rightarrow> nat option \<Rightarrow> error_fields" where
  "new_error m s = \<lparr>message = m, error_status = s, error_body = None\<rparr>"

text \<open>
  The values the source throws or rejects with: the two error classes, the
  \<^verbatim>\<open>SyntaxError\<close> of \<^verbatim>\<open>JSON.parse\<close>, and any other value, named by its message:
  what \<^verbatim>\<open>fetch\<close> or \<^verbatim>\<open>response.text()\<close> rejects with (a \<^verbatim>\<open>TypeError\<close> when the
  network fails), or what a function of a waiter throws.
\<close>

datatype js_error =
    NetError error_fields
  | BackError error_fields
  | SyntaxError
  | OtherError string

subsection \<open>The classification of a failed response: \<^verbatim>\<open>handleError\<close>\<close>

text \<open>
  The regular expression \<^verbatim>\<open>/<b>description<\/b> <u>(.+?)<\/u>/gu\<close>, run by \<^verbatim>\<open>exec\<close>
  from index 0 of the body: the leftmost position where the text
  \<^verbatim>\<open><b>description</b> <u>\<close> stands, followed by the shortest non-empty run of
  characters other than line terminators that \<^verbatim>\<open></u>\<close> follows. The result is the
  group \<^verbatim>\<open>match?.[1]\<close>. The line terminators U+2028 and U+2029 are not ASCII and
  count here as ordinary bytes.
\<close>

definition isLineTerminator :: "char \<Rightarrow> bool" where
  "isLineTerminator c = (c = CHR 0x0A \<or> c = CHR 0x0D)"

fun lazy_group :: "string \<Rightarrow> string \<Rightarrow> string option" where
  "lazy_group acc [] = None"
| "lazy_group acc (c # cs) =
     (if startsWith (c # cs) ''</u>'' then Some (rev acc)
      else if isLineTerminator c then None
      else lazy_group (c # acc) cs)"

fun group_at :: "string \<Rightarrow> string option" where
  "group_at [] = None"
| "group_at (c # cs) = (if isLineTerminator c then None else lazy_group [c] cs)"

fun exec_description :: "string \<Rightarrow> string option" where
  "exec_description [] = None"
| "exec_description (c # cs) =
     (if startsWith (c # cs) ''<b>description</b> <u>''
      then (case group_at (drop (length ''<b>description</b> <u>'') (c # cs)) of
              Some g \<Rightarrow> Some g
            | None \<Rightarrow> exec_description cs)
      else exec_description cs)"

text \<open>The Russian text of the source, "error not specified", in UTF-8.\<close>

definition error_not_specified :: string where
  "error_not_specified =
     [CHR 0xD0, CHR 0x9E, CHR 0xD1, CHR 0x88, CHR 0xD0, CHR 0xB8, CHR 0xD0, CHR 0xB1,
      CHR 0xD0, CHR 0xBA, CHR 0xD0, CHR 0xB0, CHR 0x20, CHR 0xD0, CHR 0xBD, CHR 0xD0,
      CHR 0xB5, CHR 0x20, CHR 0xD1, CHR 0x83, CHR 0xD0, CHR 0xBA, CHR 0xD0, CHR 0xB0,
      CHR 0xD0, CHR 0xB7, CHR 0xD0, CHR 0xB0, CHR 0xD0, CHR 0xBD, CHR 0xD0, CHR 0xB0]"

text \<open>
  \<^verbatim>\<open>parseBackendError\<close> of the base class. A subclass may override it, so
  \<^verbatim>\<open>handleError\<close> takes the parser in use as its first argument.
\<close>

definition parseBackendError :: "Response \<Rightarrow> string \<Rightarrow> error_fields" where
  "parseBackendError response body =
     (new_error (show_nat (status response) @ '' - '' @ statusText response) None)
       \<lparr>error_body := Some body\<rparr>"

text \<open>
  \<^verbatim>\<open>handleError\<close>: \<open>Inr\<close> is the response returned, \<open>Inl\<close> the error thrown.
\<close>

definition handleError ::
  "(Response \<Rightarrow> string \<Rightarrow> error_fields) \<Rightarrow> Response \<Rightarrow> js_error + Response" where
  "handleError parser response =
     (if ok response then Inr response
      else
        let body = bodyText response;
            set_fields = (\<lambda>e. e\<lparr>error_status := Some (status response), error_body := Some body\<rparr>)
        in
        if status response = 401
          then Inl (NetError (set_fields (new_error ''Authorization exception'' (Some 401))))
        else if startsWith body ''<'' then
          let described = (case exec_description body of
                             Some g \<Rightarrow> g
                           | None \<Rightarrow> statusText response);
              shown = (if described = [] then error_not_specified else described)
          in Inl (NetError (set_fields
                   (new_error (show_nat (status response) @ '' - '' @ shown) None)))
        else if startsWith body ''{''
          then Inl (BackError (set_fields (parser response body)))
        else Inl (NetError (set_fields
               (new_error (show_nat (status response) @ '' - '' @ statusText response) None))))"

subsection \<open>\<^verbatim>\<open>JSON.parse\<close>\<close>

text \<open>
  \<^verbatim>\<open>JSON.parse\<close> of the runtime, by the JSON grammar of ECMA-404: a value between
  optional white space, and nothing after it. The result is the syntax tree of the text.
  A number keeps its text and a string keeps the characters between its quotes, escapes
  included, so no floating point value and no UTF-16 decoding is modelled; the members
  of an object are kept in the order of the text. A text outside the grammar raises
  \<^verbatim>\<open>SyntaxError\<close>.
\<close>

datatype json =
    JNull
  | JBool bool
  | JNumber string
  | JString string
  | JArray "json list"
  | JObject "(string \<times> json) list"

definition isWhitespace :: "char \<Rightarrow> bool" where
  "isWhitespace c = (c = CHR 0x20 \<or> c = CHR 0x09 \<or> c = CHR 0x0A \<or> c = CHR 0x0D)"

definition skip_ws :: "string \<Rightarrow> string" where
  "skip_ws s = dropWhile isWhitespace s"

definition isDigit :: "char \<Rightarrow> bool" where
  "isDigit c = (c \<in> set ''0123456789'')"

definition isHexDigit :: "char \<Rightarrow> bool" where
  "isHexDigit c = (c \<in> set ''0123456789abcdefABCDEF'')"

definition isSimpleEscape :: "char \<Rightarrow> bool" where
  "isSimpleEscape c = (c = CHR 0x22 \<or> c = CHR 0x5C \<or> c \<in> set ''/bfnrt'')"

text \<open>
  The characters of a string after its opening quote, up to the closing quote: no control
  character, and after a backslash one of \<^verbatim>\<open>" \ / b f n r t\<close> or \<^verbatim>\<open>u\<close> and four
  hexadecimal digits. The result is the string's text and the rest of the input.
\<close>

fun lex_string :: "string \<Rightarrow> string \<Rightarrow> (string \<times> string) option" where
  "lex_string acc [] = None"
| "lex_string acc (c # cs) =
     (if c = CHR 0x22 then Some (rev acc, cs)
      else if c = CHR 0x5C then
        (case cs of
           [] \<Rightarrow> None
         | e # es \<Rightarrow>
             if isSimpleEscape e then lex_string (e # c # acc) es
             else if e = CHR ''u'' then
               (case es of
                  h1 # h2 # h3 # h4 # r \<Rightarrow>
                    if isHexDigit h1 \<and> isHexDigit h2 \<and> isHexDigit h3 \<and> isHexDigit h4
                    then lex_string (h4 # h3 # h2 # h1 # e # c # acc) r
                    else None
                | _ \<Rightarrow> None)
             else None)
      else if (of_char c :: nat) < 32 then None
      else lex_string (c # acc) cs)"

text \<open>
  A number: an optional minus sign, \<^verbatim>\<open>0\<close> or digits that do not start with
  \<^verbatim>\<open>0\<close>, an optional fraction and an optional exponent.
\<close>

definition lex_int :: "string \<Rightarrow> (string \<times> string) option" where
  "lex_int s =
     (case s of
        [] \<Rightarrow> None
      | d # r \<Rightarrow>
          if d = CHR ''0'' then Some ([d], r)
          else if isDigit d then Some (takeWhile isDigit s, dropWhile isDigit s)
          else None)"

definition lex_frac :: "string \<Rightarrow> (string \<times> string) option" where
  "lex_frac s =
     (case s of
        [] \<Rightarrow> Some ([], s)
      | d # r \<Rightarrow>
          if d = CHR ''.'' then
            (if takeWhile isDigit r = [] then None
             else Some (d # takeWhile isDigit r, dropWhile isDigit r))
          else Some ([], s))"

definition lex_sign :: "string \<Rightarrow> string \<times> string" where
  "lex_sign s =
     (case s of
        [] \<Rightarrow> ([], s)
      | d # r \<Rightarrow> if d = CHR ''+'' \<or> d = CHR ''-'' then ([d], r) else ([], s))"

definition lex_exp :: "string \<Rightarrow> (string \<times> string) option" where
  "lex_exp s =
     (case s of
        [] \<Rightarrow> Some ([], s)
      | d # r \<Rightarrow>
          if d = CHR ''e'' \<or> d = CHR ''E'' then
            (case lex_sign r of
               (sg, r') \<Rightarrow>
                 if takeWhile isDigit r' = [] then None
                 else Some (d # sg @ takeWhile isDigit r', dropWhile isDigit r'))
          else Some ([], s))"

definition lex_number :: "string \<Rightarrow> (string \<times> string) option" where
  "lex_number s =
     (case (case s of [] \<Rightarrow> ([], s) | d # r \<Rightarrow> if d = CHR ''-'' then ([d], r) else ([], s)) of
        (neg, s1) \<Rightarrow>
          (case lex_int s1 of
             None \<Rightarrow> None
           | Some (i, s2) \<Rightarrow>
               (case lex_frac s2 of
                  None \<Rightarrow> None
                | Some (f, s3) \<Rightarrow>
                    (case lex_exp s3 of
                       None \<Rightarrow> None
                     | Some (e, s4) \<Rightarrow> Some (neg @ i @ f @ e, s4)))))"

lemma skip_ws_Cons: "skip_ws s = c # cs \<Longrightarrow> length cs < length s"
  using length_dropWhile_le [of isWhitespace s] by (simp add: skip_ws_def)

lemma lex_string_length: "lex_string acc s = Some (t, r) \<Longrightarrow> length r < length s"
  by (induction acc s rule: lex_string.induct) (fastforce split: if_splits list.splits)+

text \<open>
  The parser proper. \<open>parse_elements\<close> reads the elements of an array after its first
  bracket, up to and including the closing one, and \<open>parse_members\<close> the members of an
  object likewise. The comparisons of lengths before the recursive calls on the rest of
  the input make the termination argument; \<open>parse_value_consumes\<close> below shows that
  they never fail.
\<close>

function parse_value :: "string \<Rightarrow> (json \<times> string) option"
  and parse_elements :: "string \<Rightarrow> (json list \<times> string) option"
  and parse_members :: "string \<Rightarrow> ((string \<times> json) list \<times> string) option"
where
  "parse_value s =
     (case skip_ws s of
        [] \<Rightarrow> None
      | c # cs \<Rightarrow>
          if c = CHR ''['' then
            (case skip_ws cs of
               [] \<Rightarrow> None
             | d # ds \<Rightarrow>
                 if d = CHR '']'' then Some (JArray [], ds)
                 else (case parse_elements cs of
                         None \<Rightarrow> None
                       | Some (vs, r) \<Rightarrow> Some (JArray vs, r)))
          else if c = CHR ''{'' then
            (case skip_ws cs of
               [] \<Rightarrow> None
             | d # ds \<Rightarrow>
                 if d = CHR ''}'' then Some (JObject [], ds)
                 else (case parse_members cs of
                         None \<Rightarrow> None
                       | Some (ms, r) \<Rightarrow> Some (JObject ms, r)))
          else if c = CHR 0x22 then
            (case lex_string [] cs of
               None \<Rightarrow> None
             | Some (str, r) \<Rightarrow> Some (JString str, r))
          else if c = CHR ''-'' \<or> isDigit c then
            (case lex_number (c # cs) of
               None \<Rightarrow> None
             | Some (n, r) \<Rightarrow> Some (JNumber n, r))
          else if startsWith (c # cs) ''true'' then Some (JBool True, drop 4 (c # cs))
          else if startsWith (c # cs) ''false'' then Some (JBool False, drop 5 (c # cs))
          else if startsWith (c # cs) ''null'' then Some (JNull, drop 4 (c # cs))
          else None)"
| "parse_elements s =
     (case parse_value s of
        None \<Rightarrow> None
      | Some (v, r) \<Rightarrow>
          (case skip_ws r of
             [] \<Rightarrow> None
           | c # cs \<Rightarrow>
               if c = CHR '']'' then Some ([v], cs)
               else if c = CHR '','' \<and> length cs < length s then
                 (case parse_elements cs of
                    None \<Rightarrow> None
                  | Some (vs, r') \<Rightarrow> Some (v # vs, r'))
               else None))"
| "parse_members s =
     (case skip_ws s of
        [] \<Rightarrow> None
      | q # cs \<Rightarrow>
          if q = CHR 0x22 then
            (case lex_string [] cs of
               None \<Rightarrow> None
             | Some (k, r) \<Rightarrow>
                 (case skip_ws r of
                    [] \<Rightarrow> None
                  | colon # r1 \<Rightarrow>
                      if colon = CHR '':'' then
                        (case parse_value r1 of
                           None \<Rightarrow> None
                         | Some (v, r2) \<Rightarrow>
                             (case skip_ws r2 of
                                [] \<Rightarrow> None
                              | c # r3 \<Rightarrow>
                                  if c = CHR ''}'' then Some ([(k, v)], r3)
                                  else if c = CHR '','' \<and> length r3 < length s then
                                    (case parse_members r3 of
                                       None \<Rightarrow> None
                                     | Some (ms, r') \<Rightarrow> Some ((k, v) # ms, r'))
                                  else None))
                      else None))
          else None)"
  by pat_completeness auto
termination
  apply (relation "measure (\<lambda>x. case x of
            Inl s \<Rightarrow> 2 * length s
          | Inr (Inl s) \<Rightarrow> 2 * length s + 1
          | Inr (Inr s) \<Rightarrow> 2 * length s + 1)")
      apply (auto dest!: skip_ws_Cons lex_string_length)
  done

declare parse_value.simps [simp del] parse_elements.simps [simp del] parse_members.simps [simp del]

definition JSON_parse :: "string \<Rightarrow> js_error + json" where
  "JSON_parse s =
     (case parse_value s of
        None \<Rightarrow> Inl SyntaxError
      | Some (v, r) \<Rightarrow> if skip_ws r = [] then Inr v else Inl SyntaxError)"

subsection \<open>The conversion of the response text\<close>

text \<open>
  The argument \<^verbatim>\<open>modelConstructor\<close> is a value of any type; the code looks only at
  \<^verbatim>\<open>Array.isArray\<close> and \<^verbatim>\<open>typeof\<close> of it, so the model keeps the kind of the value.
  \<^verbatim>\<open>typeof\<close> of an array and of \<^verbatim>\<open>null\<close> is \<^verbatim>\<open>"object"\<close>.
\<close>

datatype js_model =
    AnArray
  | AnObject
  | Null
  | AString
  | ANumber
  | ABoolean
  | Undefined
  | AFunction
  | ASymbol
  | ABigInt

definition isArray :: "js_model \<Rightarrow> bool" where
  "isArray m = (m = AnArray)"

fun typeof :: "js_model \<Rightarrow> string" where
  "typeof AnArray = ''object''"
| "typeof AnObject = ''object''"
| "typeof Null = ''object''"
| "typeof AString = ''string''"
| "typeof ANumber = ''number''"
| "typeof ABoolean = ''boolean''"
| "typeof Undefined = ''undefined''"
| "typeof AFunction = ''function''"
| "typeof ASymbol = ''symbol''"
| "typeof ABigInt = ''bigint''"

text \<open>
  The value a request returns. \<open>NumberOf t\<close> is \<^verbatim>\<open>Number(t)\<close>, the number the text
  \<open>t\<close> converts to; the floating point value is not computed.
\<close>

datatype js_value =
    Parsed json
  | Str string
  | NumberOf string
  | Bool bool
  | Void

text \<open>
  Lines 66 to 93 of the source without their work on the cache, which
  \<open>customRequest_resume\<close> does: the value assigned to \<^verbatim>\<open>data\<close>, or the error of the
  last branch, or the exception \<^verbatim>\<open>JSON.parse\<close> raises in the first two branches, where
  no handler encloses it. \<^verbatim>\<open>typeof primitive\<close> is always \<^verbatim>\<open>"string"\<close>.
\<close>

datatype converted =
    Data js_value
  | WrongType js_error
  | Uncaught js_error

definition from_JSON :: "string \<Rightarrow> converted" where
  "from_JSON primitive =
     (case JSON_parse primitive of Inl e \<Rightarrow> Uncaught e | Inr j \<Rightarrow> Data (Parsed j))"

definition convert :: "js_model \<Rightarrow> string \<Rightarrow> converted" where
  "convert modelConstructor primitive =
     (if isArray modelConstructor \<and> startsWith primitive ''[''
        then from_JSON primitive
      else if typeof modelConstructor = ''object'' \<and> startsWith primitive ''{''
        then from_JSON primitive
      else if typeof modelConstructor = ''string'' then Data (Str primitive)
      else if typeof modelConstructor = ''number'' then Data (NumberOf primitive)
      else if typeof modelConstructor = ''boolean'' then Data (Bool (primitive \<noteq> []))
      else if typeof modelConstructor = ''undefined'' then Data Void
      else WrongType (NetError (new_error
             (''Wrong returned type. Must by '' @ typeof modelConstructor
                @ '' but return string'') None)))"

subsection \<open>The cache of requests in flight\<close>

text \<open>
  What a caller of \<^verbatim>\<open>customRequest\<close> gets: the promise is fulfilled with a value or
  rejected with an error.
\<close>

datatype settlement = Resolved js_value | Rejected js_error

text \<open>
  An entry \<^verbatim>\<open>[res, rej]\<close> of a list of the cache. \<open>Joiner p\<close> is the pair that line 29
  pushes: the two functions of the promise \<open>p\<close> of a caller that waits. The cache is a
  protected field typed with \<^verbatim>\<open>Function\<close>, so a list may also hold a pair of other
  functions: \<open>Custom n res rej\<close>, where \<open>res v\<close> and \<open>rej e\<close> are what the call raises,
  if anything.
\<close>

datatype waiter =
    Joiner nat
  | Custom nat "js_value \<Rightarrow> js_error option" "js_error \<Rightarrow> js_error option"

text \<open>
  The state of one repository and of the runtime around it:
  \<^item> \<open>requestCache\<close>, the field of the class, from the cache key to the list of waiters;
  \<^item> \<open>pending\<close>, the calls that wait for their \<^verbatim>\<open>fetch\<close>, each with the arguments its
    continuation uses;
  \<^item> \<open>fetches\<close>, the network calls made so far, in order, each with the call that made it;
  \<^item> \<open>promises\<close>, the settled promises of the callers that joined a list (a promise that
    is not in the map is pending);
  \<^item> \<open>returned\<close>, the results of the calls that made their own network call;
  \<^item> \<open>invoked\<close>, the functions of the waiters called so far with their argument, in order;
  \<^item> \<open>console\<close>, the values given to \<^verbatim>\<open>console.error\<close>.
\<close>

record state =
  requestCache :: "string \<rightharpoonup> waiter list"
  pending :: "nat \<rightharpoonup> Methods \<times> string \<times> js_model"
  fetches :: "(nat \<times> Methods \<times> string \<times> string option) list"
  promises :: "nat \<rightharpoonup> settlement"
  returned :: "nat \<rightharpoonup> settlement"
  invoked :: "(waiter \<times> settlement) list"
  console :: "js_error list"

definition init :: state where
  "init = \<lparr>requestCache = Map.empty, pending = Map.empty, fetches = [],
            promises = Map.empty, returned = Map.empty, invoked = [], console = []\<rparr>"

definition isCacheableRequest :: "Methods \<Rightarrow> bool" where
  "isCacheableRequest type = (type = GET \<or> type = HEAD)"

definition cacheKey :: "Methods \<Rightarrow> string \<Rightarrow> string" where
  "cacheKey type url = method_text type @ '' '' @ url"

text \<open>Settling a promise: the first call of \<^verbatim>\<open>res\<close> or \<^verbatim>\<open>rej\<close> decides, later ones do nothing.\<close>

definition settle :: "nat \<Rightarrow> settlement \<Rightarrow> state \<Rightarrow> state" where
  "settle p x st =
     (case promises st p of
        None \<Rightarrow> st\<lparr>promises := (promises st)(p \<mapsto> x)\<rparr>
      | Some y \<Rightarrow> st)"

text \<open>
  The calls \<^verbatim>\<open>tuple[0](data)\<close> and \<^verbatim>\<open>tuple[1](e)\<close>: the state after the call, and the
  exception if the call raised one.
\<close>

fun tuple_0 :: "waiter \<Rightarrow> js_value \<Rightarrow> state \<Rightarrow> js_error option \<times> state" where
  "tuple_0 (Joiner p) v st =
     (None, settle p (Resolved v) (st\<lparr>invoked := invoked st @ [(Joiner p, Resolved v)]\<rparr>))"
| "tuple_0 (Custom n res rej) v st =
     (res v, st\<lparr>invoked := invoked st @ [(Custom n res rej, Resolved v)]\<rparr>)"

fun tuple_1 :: "waiter \<Rightarrow> js_error \<Rightarrow> state \<Rightarrow> js_error option \<times> state" where
  "tuple_1 (Joiner p) e st =
     (None, settle p (Rejected e) (st\<lparr>invoked := invoked st @ [(Joiner p, Rejected e)]\<rparr>))"
| "tuple_1 (Custom n res rej) e st =
     (rej e, st\<lparr>invoked := invoked st @ [(Custom n res rej, Rejected e)]\<rparr>)"

text \<open>\<^verbatim>\<open>try { ... } catch (re) { console.error(re); }\<close> around one such call.\<close>

definition try_catch :: "js_error option \<times> state \<Rightarrow> state" where
  "try_catch r =
     (case r of
        (None, st) \<Rightarrow> st
      | (Some re, st) \<Rightarrow> st\<lparr>console := console st @ [re]\<rparr>)"

text \<open>
  The two \<^verbatim>\<open>forEach\<close> loops over the waiters of a list, in the order of the list.
\<close>

definition forEach_resolve :: "waiter list \<Rightarrow> js_value \<Rightarrow> state \<Rightarrow> state" where
  "forEach_resolve ws data st = fold (\<lambda>tuple s. try_catch (tuple_0 tuple data s)) ws st"

definition forEach_reject :: "waiter list \<Rightarrow> js_error \<Rightarrow> state \<Rightarrow> state" where
  "forEach_reject ws e st = fold (\<lambda>tuple s. try_catch (tuple_1 tuple e s)) ws st"

definition cache_delete :: "string \<Rightarrow> state \<Rightarrow> state" where
  "cache_delete key st = st\<lparr>requestCache := (requestCache st)(key := None)\<rparr>"

text \<open>
  The block the source writes at lines 51 to 62 and again at lines 81 to 91 (reject every
  waiter, then delete the list), and the block of lines 96 to 106 (resolve every waiter,
  then delete the list). Each does nothing unless the request is cacheable and the cache
  has the key.
\<close>

definition reject_waiters :: "Methods \<Rightarrow> string \<Rightarrow> js_error \<Rightarrow> state \<Rightarrow> state" where
  "reject_waiters type url e st =
     (if isCacheableRequest type then
        (case requestCache st (cacheKey type url) of
           None \<Rightarrow> st
         | Some ws \<Rightarrow> cache_delete (cacheKey type url) (forEach_reject ws e st))
      else st)"

definition resolve_waiters :: "Methods \<Rightarrow> string \<Rightarrow> js_value \<Rightarrow> state \<Rightarrow> state" where
  "resolve_waiters type url data st =
     (if isCacheableRequest type then
        (case requestCache st (cacheKey type url) of
           None \<Rightarrow> st
         | Some ws \<Rightarrow> cache_delete (cacheKey type url) (forEach_resolve ws data st))
      else st)"

subsection \<open>\<^verbatim>\<open>customRequest\<close>\<close>

text \<open>
  The function is asynchronous: a call runs to its first \<^verbatim>\<open>await\<close>, and other calls run
  before it goes on. \<open>customRequest_call\<close> is the part of call \<open>c\<close> up to there (lines 22
  to 47). A cacheable request whose key is in the cache pushes its pair onto the list and
  waits for its promise; any other request records an empty list if it is cacheable,
  makes the network call and waits for it. The body is given as the text
  \<^verbatim>\<open>JSON.stringify\<close> makes of it, or \<open>None\<close> when it is undefined.
\<close>

definition dispatch ::
  "nat \<Rightarrow> Methods \<Rightarrow> string \<Rightarrow> string option \<Rightarrow> js_model \<Rightarrow> state \<Rightarrow> state" where
  "dispatch c type url body modelConstructor st =
     st\<lparr>fetches := fetches st @ [(c, type, url, body)],
        pending := (pending st)(c \<mapsto> (type, url, modelConstructor))\<rparr>"

definition customRequest_call ::
  "nat \<Rightarrow> Methods \<Rightarrow> string \<Rightarrow> string option \<Rightarrow> js_model \<Rightarrow> state \<Rightarrow> state" where
  "customRequest_call c type url body modelConstructor st =
     (if isCacheableRequest type then
        (case requestCache st (cacheKey type url) of
           Some ws \<Rightarrow> st\<lparr>requestCache := (requestCache st)(cacheKey type url \<mapsto> ws @ [Joiner c])\<rparr>
         | None \<Rightarrow>
             dispatch c type url body modelConstructor
               (st\<lparr>requestCache := (requestCache st)(cacheKey type url \<mapsto> [])\<rparr>))
      else dispatch c type url body modelConstructor st)"

text \<open>
  What the network call of a pending request comes to: \<^verbatim>\<open>fetch\<close> or the reading of the
  body rejects with an error, or there is a response with its text. The three
  \<^verbatim>\<open>await\<close>s of the \<^verbatim>\<open>try\<close> block (lines 39 to 49) are taken as one step: between them
  the call changes nothing, and the calls that run meanwhile see the same cache.
\<close>

datatype fetched = Failed js_error | Responded Response

definition try_block ::
  "(Response \<Rightarrow> string \<Rightarrow> error_fields) \<Rightarrow> fetched \<Rightarrow> js_error + string" where
  "try_block parser outcome =
     (case outcome of
        Failed e \<Rightarrow> Inl e
      | Responded response \<Rightarrow>
          (case handleError parser response of
             Inl e \<Rightarrow> Inl e
           | Inr r \<Rightarrow> Inr (bodyText r)))"

definition finish :: "nat \<Rightarrow> settlement \<Rightarrow> state \<Rightarrow> state" where
  "finish c x st = st\<lparr>returned := (returned st)(c \<mapsto> x)\<rparr>"

text \<open>
  \<open>customRequest_resume\<close> is the rest of call \<open>c\<close> (lines 48 to 107), run when its
  network call has come to \<open>outcome\<close>: the handler of the \<^verbatim>\<open>try\<close> block, the conversion,
  and the notification of the waiters. A call that is not pending has nothing to resume.
\<close>

definition customRequest_resume ::
  "(Response \<Rightarrow> string \<Rightarrow> error_fields) \<Rightarrow> nat \<Rightarrow> fetched \<Rightarrow> state \<Rightarrow> state" where
  "customRequest_resume parser c outcome st =
     (case pending st c of
        None \<Rightarrow> st
      | Some (type, url, modelConstructor) \<Rightarrow>
          let st0 = st\<lparr>pending := (pending st)(c := None)\<rparr> in
          (case try_block parser outcome of
             Inl e \<Rightarrow> finish c (Rejected e) (reject_waiters type url e st0)
           | Inr primitive \<Rightarrow>
               (case convert modelConstructor primitive of
                  Uncaught e \<Rightarrow> finish c (Rejected e) st0
                | WrongType error \<Rightarrow> finish c (Rejected error) (reject_waiters type url error st0)
                | Data data \<Rightarrow> finish c (Resolved data) (resolve_waiters type url data st0))))"

text \<open>What the calls \<^verbatim>\<open>tuple[0](v)\<close> and \<^verbatim>\<open>tuple[1](e)\<close> raise.\<close>

fun raises_0 :: "waiter \<Rightarrow> js_value \<Rightarrow> js_error option" where
  "raises_0 (Joiner p) v = None"
| "raises_0 (Custom n res rej) v = res v"

fun raises_1 :: "waiter \<Rightarrow> js_error \<Rightarrow> js_error option" where
  "raises_1 (Joiner p) e = None"
| "raises_1 (Custom n res rej) e = rej e"

subsection \<open>Runs of the event loop\<close>

text \<open>
  The runtime has one thread: a run is a sequence of steps, each the start of a call or
  the continuation of a pending one when its network call is over.
\<close>

datatype event =
    Call nat Methods string "string option" js_model
  | Resume nat fetched

fun step :: "(Response \<Rightarrow> string \<Rightarrow> error_fields) \<Rightarrow> event \<Rightarrow> state \<Rightarrow> state" where
  "step parser (Call c type url body modelConstructor) st =
     customRequest_call c type url body modelConstructor st"
| "step parser (Resume c outcome) st = customRequest_resume parser c outcome st"

definition run :: "(Response \<Rightarrow> string \<Rightarrow> error_fields) \<Rightarrow> event list \<Rightarrow> state \<Rightarrow> state" where
  "run parser evs st = fold (step parser) evs st"

subsection \<open>Example runs\<close>

text \<open>
  A response with status 200 whose text starts like an array and is not JSON (the text a
  server makes of an object it joins to a string), and a list of waiters whose second
  entry raises when it is called.
\<close>

definition not_JSON :: fetched where
  "not_JSON = Responded \<lparr>status = 200, statusText = ''OK'', bodyText = ''[object Object]''\<rparr>"

definition listener_failed :: js_error where
  "listener_failed = OtherError ''listener failed''"

definition three_waiters :: "waiter list" where
  "three_waiters =
     [Joiner 2, Custom 7 (\<lambda>v. Some listener_failed) (\<lambda>e. Some listener_failed), Joiner 3]"

definition waiting :: state where
  "waiting = init\<lparr>requestCache := [''GET /items'' \<mapsto> three_waiters],
                   pending := [1 \<mapsto> (GET, ''/items'', AnArray)]\<rparr>"

text \<open>
  Two runs from the initial state in which the response is that text: in the first, a
  second call for the same URL comes while the first is pending; in the second, a call
  for the same URL comes after the first has ended.
\<close>

definition hung_joiner :: state where
  "hung_joiner =
     run parseBackendError
       [Call 1 GET ''/items'' None AnArray,
        Call 2 GET ''/items'' None AnArray,
        Resume 1 not_JSON] init"

definition stale_slot :: state where
  "stale_slot =
     run parseBackendError
       [Call 1 GET ''/items'' None AnArray,
        Resume 1 not_JSON,
        Call 3 GET ''/items'' None AnArray] init"

section \<open>Properties\<close>

subsection \<open>The parser reads forward\<close>

lemma dropWhile_le: "length (dropWhile P xs) \<le> length xs"
  by (rule length_dropWhile_le)

lemma lex_int_length: "lex_int s = Some (t, r) \<Longrightarrow> length r < length s"
  using dropWhile_le [of isDigit "tl s"]
  by (cases s) (auto simp add: lex_int_def split: if_splits)

lemma lex_frac_length: "lex_frac s = Some (t, r) \<Longrightarrow> length r \<le> length s"
  using dropWhile_le [of isDigit "tl s"]
  by (cases s) (auto simp add: lex_frac_def split: if_splits)

lemma lex_sign_length: "lex_sign s = (t, r) \<Longrightarrow> length r \<le> length s"
  by (cases s) (auto simp add: lex_sign_def split: if_splits)

lemma lex_exp_length: "lex_exp s = Some (t, r) \<Longrightarrow> length r \<le> length s"
proof (cases s)
  case Nil
  then show "lex_exp s = Some (t, r) \<Longrightarrow> length r \<le> length s"
    by (simp add: lex_exp_def)
next
  case (Cons d s')
  assume a: "lex_exp s = Some (t, r)"
  obtain sg r' where sg: "lex_sign s' = (sg, r')" by (cases "lex_sign s'")
  have "length r' \<le> length s'" using sg by (rule lex_sign_length)
  moreover have "length (dropWhile isDigit r') \<le> length r'" by (rule dropWhile_le)
  ultimately show "length r \<le> length s"
    using a Cons sg by (auto simp add: lex_exp_def split: if_splits)
qed

lemma lex_number_length:
  assumes "lex_number s = Some (t, r)"
  shows "length r < length s"
proof -
  obtain neg s1 where neg:
    "(case s of [] \<Rightarrow> ([], s) | d # r \<Rightarrow> if d = CHR ''-'' then ([d], r) else ([], s)) = (neg, s1)"
    by (cases "(case s of [] \<Rightarrow> ([], s) | d # r \<Rightarrow> if d = CHR ''-'' then ([d], r) else ([], s))")
  then have l1: "length s1 \<le> length s"
    by (cases s) (auto split: if_splits)
  from assms neg obtain i s2 f s3 e where
    i: "lex_int s1 = Some (i, s2)" and f: "lex_frac s2 = Some (f, s3)"
    and e: "lex_exp s3 = Some (e, r)"
    by (auto simp add: lex_number_def split: option.splits)
  from lex_int_length [OF i] lex_frac_length [OF f] lex_exp_length [OF e] l1
  show ?thesis by simp
qed

lemma startsWith_length: "startsWith s p \<Longrightarrow> length p \<le> length s"
  by (induction s p rule: startsWith.induct) auto

text \<open>
  Every successful call of the parser leaves a rest shorter than its input, so the
  comparisons of lengths in \<open>parse_elements\<close> and \<open>parse_members\<close> always succeed
  where they are reached.
\<close>

lemma parse_value_consumes:
  "parse_value s = Some (v, r) \<Longrightarrow> length r < length s"
  "parse_elements s = Some (vs, r) \<Longrightarrow> length r < length s"
  "parse_members s = Some (ms, r) \<Longrightarrow> length r < length s"
proof (induction s and s and s arbitrary: v r and vs r and ms r
       rule: parse_value_parse_elements_parse_members.induct)
  case (1 s)
  from "1.prems" obtain c cs where sk: "skip_ws s = c # cs"
    by (subst (asm) parse_value.simps) (auto split: list.splits)
  have ls: "length cs < length s" by (rule skip_ws_Cons [OF sk])
  have le: "length (c # cs) \<le> length s"
    using ls by simp
  show ?case
    using "1.prems" "1.IH" [OF sk] ls
    apply (subst (asm) parse_value.simps)
    apply (simp add: sk split: if_splits list.splits option.splits prod.splits)
    apply (auto dest: skip_ws_Cons lex_string_length lex_number_length startsWith_length)
     apply (metis less_trans)+
    done
next
  case (2 s)
  from "2.prems" obtain v r0 where pv: "parse_value s = Some (v, r0)"
    by (subst (asm) parse_elements.simps) (auto split: option.splits)
  have l0: "length r0 < length s" by (rule "2.IH"(1) [OF pv])
  from "2.prems" pv obtain c cs where sk: "skip_ws r0 = c # cs"
    by (subst (asm) parse_elements.simps) (auto split: list.splits)
  have l1: "length cs < length r0" by (rule skip_ws_Cons [OF sk])
  show ?case
  proof (cases "c = CHR '']''")
    case True
    with "2.prems" pv sk have "r = cs"
      by (subst (asm) parse_elements.simps) simp
    with l0 l1 show ?thesis by simp
  next
    case False
    with "2.prems" pv sk obtain vs' where
      c: "c = CHR '',''" and g: "length cs < length s" and pe: "parse_elements cs = Some (vs', r)"
      by (subst (asm) parse_elements.simps) (auto split: if_splits option.splits)
    have "length r < length cs"
      using "2.IH"(2) [OF pv refl sk False] c g pe by simp
    with g show ?thesis by simp
  qed
next
  case (3 s)
  from "3.prems" obtain q cs where sk: "skip_ws s = q # cs"
    by (subst (asm) parse_members.simps) (auto split: list.splits)
  from "3.prems" sk have q: "q = CHR 0x22"
    by (subst (asm) parse_members.simps) (auto split: if_splits)
  from "3.prems" sk q obtain k r0 where ls: "lex_string [] cs = Some (k, r0)"
    by (subst (asm) parse_members.simps) (auto split: option.splits)
  from "3.prems" sk q ls obtain colon r1 where sk1: "skip_ws r0 = colon # r1"
    by (subst (asm) parse_members.simps) (auto split: list.splits)
  from "3.prems" sk q ls sk1 have colon: "colon = CHR '':''"
    by (subst (asm) parse_members.simps) (auto split: if_splits)
  from "3.prems" sk q ls sk1 colon obtain v r2 where pv: "parse_value r1 = Some (v, r2)"
    by (subst (asm) parse_members.simps) (auto split: option.splits)
  from "3.prems" sk q ls sk1 colon pv obtain c r3 where sk2: "skip_ws r2 = c # r3"
    by (subst (asm) parse_members.simps) (auto split: list.splits)
  have l1: "length r1 < length s"
    using skip_ws_Cons [OF sk] lex_string_length [OF ls] skip_ws_Cons [OF sk1] by simp
  have l2: "length r2 < length r1"
    using "3.IH"(1) [OF sk q ls refl sk1 colon pv] .
  have l3: "length r3 < length r2" by (rule skip_ws_Cons [OF sk2])
  show ?case
  proof (cases "c = CHR ''}''")
    case True
    with "3.prems" sk q ls sk1 colon pv sk2 have "r = r3"
      by (subst (asm) parse_members.simps) simp
    with l1 l2 l3 show ?thesis by simp
  next
    case False
    with "3.prems" sk q ls sk1 colon pv sk2 obtain ms' where
      c: "c = CHR '',''" and g: "length r3 < length s" and pm: "parse_members r3 = Some (ms', r)"
      by (subst (asm) parse_members.simps) (auto split: if_splits option.splits)
    have "length r < length r3"
      using "3.IH"(2) [OF sk q ls refl sk1 colon pv refl sk2 False] c g pm by simp
    with g show ?thesis by simp
  qed
qed

lemma JSON_parse_not_JSON: "JSON_parse ''[object Object]'' = Inl SyntaxError"
  by code_simp

lemma JSON_parse_items: "JSON_parse ''{\"items\":[]}'' = Inr (JObject [(''items'', JArray [])])"
  by code_simp

lemma parsed_array_text_is_array:
  assumes "startsWith primitive ''[''" and "JSON_parse primitive = Inr j"
  shows "\<exists>vs. j = JArray vs"
proof -
  from assms(1) obtain cs where p: "primitive = CHR ''['' # cs"
    by (cases primitive) auto
  have sk: "skip_ws primitive = CHR ''['' # cs"
    by (simp add: p skip_ws_def isWhitespace_def)
  from assms(2) obtain r where "parse_value primitive = Some (j, r)"
    by (auto simp add: JSON_parse_def split: option.splits if_splits)
  then show ?thesis
    by (subst (asm) parse_value.simps)
       (auto simp add: sk split: list.splits if_splits option.splits)
qed

subsection \<open>The classification of failed responses\<close>

lemma startsWith_append: "startsWith s p \<Longrightarrow> \<exists>rest. s = p @ rest"
  by (induction s p rule: startsWith.induct) auto

lemma exec_description_Not_Found:
  "exec_description (''<b>description</b> <u>Not Found</u>'' @ rest) = Some ''Not Found''"
  by (simp add: isLineTerminator_def)

text \<open>
  Claim C5. For a response with status 401, whatever its body and whatever the parser of
  backend errors, \<open>handleError\<close> raises a \<^verbatim>\<open>NetError\<close> whose message is exactly
  "Authorization exception", whose status is 401 and whose body is the text of the
  response.
\<close>

theorem unauthorized_is_NetError:
  "status response = 401 \<Longrightarrow>
   handleError parser response =
     Inl (NetError \<lparr>message = ''Authorization exception'', error_status = Some 401,
                     error_body = Some (bodyText response)\<rparr>)"
  by (simp add: handleError_def ok_def new_error_def)

theorem unauthorized_is_NetError_witness:
  "handleError parseBackendError
     \<lparr>status = 401, statusText = ''Unauthorized'', bodyText = ''{\"error\":\"expired\"}''\<rparr> =
   Inl (NetError \<lparr>message = ''Authorization exception'', error_status = Some 401,
                   error_body = Some ''{\"error\":\"expired\"}''\<rparr>)"
  using unauthorized_is_NetError
    [of "\<lparr>status = 401, statusText = ''Unauthorized'', bodyText = ''{\"error\":\"expired\"}''\<rparr>"
        parseBackendError]
  by simp

text \<open>
  Claim C6, as stated, fails: a response with status 401 is not a 2xx response, and for
  it the first branch of \<open>handleError\<close> decides before the body is looked at, so the
  message is "Authorization exception" although the body starts with
  \<^verbatim>\<open><b>description</b> <u>Not Found</u>\<close>.
\<close>

theorem description_page_401_counterexample:
  "\<not> ok \<lparr>status = 401, statusText = ''Unauthorized'',
           bodyText = ''<b>description</b> <u>Not Found</u>''\<rparr> \<and>
   startsWith ''<b>description</b> <u>Not Found</u>'' ''<b>description</b> <u>Not Found</u>'' \<and>
   handleError parseBackendError
     \<lparr>status = 401, statusText = ''Unauthorized'',
      bodyText = ''<b>description</b> <u>Not Found</u>''\<rparr> =
   Inl (NetError \<lparr>message = ''Authorization exception'', error_status = Some 401,
                   error_body = Some ''<b>description</b> <u>Not Found</u>''\<rparr>) \<and>
   \<not> endsWith ''Authorization exception'' ''Not Found''"
  by (simp add: handleError_def ok_def new_error_def endsWith_def)

text \<open>
  Claim C6, amended. For a response whose status is neither 2xx nor 401 and whose body
  starts with \<^verbatim>\<open><b>description</b> <u>Not Found</u>\<close>, \<open>handleError\<close> raises a
  \<^verbatim>\<open>NetError\<close> whose message is the status, " - " and "Not Found", so it ends in
  "Not Found"; its status and body are those of the response.
\<close>

theorem description_page_Not_Found:
  assumes "\<not> ok response" and "status response \<noteq> 401"
    and "startsWith (bodyText response) ''<b>description</b> <u>Not Found</u>''"
  shows "handleError parser response =
           Inl (NetError \<lparr>message = show_nat (status response) @ '' - Not Found'',
                           error_status = Some (status response),
                           error_body = Some (bodyText response)\<rparr>) \<and>
         endsWith (show_nat (status response) @ '' - Not Found'') ''Not Found''"
proof -
  from assms(3) obtain rest
    where body: "bodyText response = ''<b>description</b> <u>Not Found</u>'' @ rest"
    using startsWith_append by blast
  have lt: "startsWith (bodyText response) ''<''"
    by (simp add: body)
  have ex: "exec_description (bodyText response) = Some ''Not Found''"
    unfolding body by (rule exec_description_Not_Found)
  have "handleError parser response =
           Inl (NetError \<lparr>message = show_nat (status response) @ '' - Not Found'',
                           error_status = Some (status response),
                           error_body = Some (bodyText response)\<rparr>)"
    using assms(1,2) lt ex by (simp add: handleError_def new_error_def)
  moreover have "endsWith (show_nat (status response) @ '' - Not Found'') ''Not Found''"
    by (simp add: endsWith_def)
  ultimately show ?thesis by simp
qed

theorem description_page_Not_Found_witness:
  "handleError parseBackendError
     \<lparr>status = 404, statusText = ''x'',
      bodyText = ''<b>description</b> <u>Not Found</u><hr>''\<rparr> =
   Inl (NetError \<lparr>message = ''404 - Not Found'', error_status = Some 404,
                   error_body = Some ''<b>description</b> <u>Not Found</u><hr>''\<rparr>) \<and>
   endsWith ''404 - Not Found'' ''Not Found''"
  using description_page_Not_Found
    [of "\<lparr>status = 404, statusText = ''x'',
          bodyText = ''<b>description</b> <u>Not Found</u><hr>''\<rparr>" parseBackendError]
  by (simp add: ok_def digit_char_def)

text \<open>
  Claim C7. For a response with status 500 and body \<^verbatim>\<open>{"msg":"boom"}\<close>, with the
  parser of the base class, \<open>handleError\<close> raises a \<^verbatim>\<open>BackError\<close> whose message is
  "500 - " and the status text, whatever the fields of the payload, and whose body is
  the text \<^verbatim>\<open>{"msg":"boom"}\<close>.
\<close>

theorem backend_error_500:
  "handleError parseBackendError
     \<lparr>status = 500, statusText = t, bodyText = ''{\"msg\":\"boom\"}''\<rparr> =
   Inl (BackError \<lparr>message = ''500 - '' @ t, error_status = Some 500,
                    error_body = Some ''{\"msg\":\"boom\"}''\<rparr>)"
  by (simp add: handleError_def ok_def parseBackendError_def new_error_def digit_char_def)

subsection \<open>The conversion\<close>

text \<open>
  For an array as \<^verbatim>\<open>modelConstructor\<close>, a text that starts with \<^verbatim>\<open>[\<close> goes to
  \<^verbatim>\<open>JSON.parse\<close>, whose result, if there is one, is an array; a text that starts with
  neither \<^verbatim>\<open>[\<close> nor \<^verbatim>\<open>{\<close> is refused, the text \<^verbatim>\<open>"not-an-array"\<close> among them.
\<close>

lemma array_text_is_parsed:
  assumes "startsWith primitive ''[''"
  shows "convert AnArray primitive =
           (case JSON_parse primitive of Inl e \<Rightarrow> Uncaught e | Inr j \<Rightarrow> Data (Parsed j))"
  using assms by (simp add: convert_def from_JSON_def isArray_def)

lemma other_text_is_wrong_type:
  assumes "\<not> startsWith primitive ''[''" and "\<not> startsWith primitive ''{''"
  shows "convert AnArray primitive =
           WrongType (NetError \<lparr>message = ''Wrong returned type. Must by object but return string'',
                                 error_status = None, error_body = None\<rparr>)"
  using assms by (simp add: convert_def isArray_def new_error_def)

lemma not_an_array_is_wrong_type:
  "convert AnArray ''\"not-an-array\"'' =
     WrongType (NetError \<lparr>message = ''Wrong returned type. Must by object but return string'',
                           error_status = None, error_body = None\<rparr>)"
  by (rule other_text_is_wrong_type) simp_all

text \<open>
  Claim C3 says that for an array as \<^verbatim>\<open>modelConstructor\<close> every text that does not
  start with \<^verbatim>\<open>[\<close> is refused with the error "Wrong returned type". The code does not
  do so for a text that starts with \<^verbatim>\<open>{\<close>: \<^verbatim>\<open>typeof\<close> of an array is
  \<^verbatim>\<open>"object"\<close>, so the second branch takes the text and the call returns the parsed
  object, here for the text \<^verbatim>\<open>{"items":[]}\<close>.
\<close>

theorem array_model_accepts_object_text:
  "convert AnArray ''{\"items\":[]}'' = Data (Parsed (JObject [(''items'', JArray [])]))"
  by (simp add: convert_def from_JSON_def isArray_def JSON_parse_items)

text \<open>
  Claim C10. For a boolean as \<^verbatim>\<open>modelConstructor\<close> the conversion never fails: it
  gives \<^verbatim>\<open>true\<close> for every text that is not empty, the text \<^verbatim>\<open>false\<close> included, and
  \<^verbatim>\<open>false\<close> for the empty text.
\<close>

theorem boolean_conversion:
  "convert ABoolean primitive = Data (Bool (primitive \<noteq> [])) \<and>
   convert ABoolean ''false'' = Data (Bool True) \<and>
   convert ABoolean [] = Data (Bool False)"
  by (simp add: convert_def isArray_def)

subsection \<open>The notification of the waiters\<close>

lemma settle_fields [simp]:
  "requestCache (settle p x st) = requestCache st"
  "pending (settle p x st) = pending st"
  "fetches (settle p x st) = fetches st"
  "returned (settle p x st) = returned st"
  "invoked (settle p x st) = invoked st"
  "console (settle p x st) = console st"
  by (simp_all add: settle_def split: option.splits)

lemma settle_promises:
  "promises (settle p x st) q =
     (if q = p \<and> promises st p = None then Some x else promises st q)"
  by (simp add: settle_def split: option.splits)

lemma once_reject_invoked:
  "invoked (try_catch (tuple_1 w e st)) = invoked st @ [(w, Rejected e)]"
  by (cases w) (simp_all add: try_catch_def split: option.splits)

lemma once_reject_console:
  "console (try_catch (tuple_1 w e st)) =
     console st @ (case raises_1 w e of None \<Rightarrow> [] | Some re \<Rightarrow> [re])"
  by (cases w) (simp_all add: try_catch_def split: option.splits)

lemma once_reject_promises:
  "promises (try_catch (tuple_1 w e st)) q =
     (if w = Joiner q \<and> promises st q = None then Some (Rejected e) else promises st q)"
  by (cases w) (auto simp add: try_catch_def settle_promises split: option.splits)

lemma once_reject_frame:
  "requestCache (try_catch (tuple_1 w e st)) = requestCache st"
  "pending (try_catch (tuple_1 w e st)) = pending st"
  "fetches (try_catch (tuple_1 w e st)) = fetches st"
  "returned (try_catch (tuple_1 w e st)) = returned st"
  by (cases w; simp add: try_catch_def split: option.splits)+

lemma once_resolve_invoked:
  "invoked (try_catch (tuple_0 w v st)) = invoked st @ [(w, Resolved v)]"
  by (cases w) (simp_all add: try_catch_def split: option.splits)

lemma once_resolve_console:
  "console (try_catch (tuple_0 w v st)) =
     console st @ (case raises_0 w v of None \<Rightarrow> [] | Some re \<Rightarrow> [re])"
  by (cases w) (simp_all add: try_catch_def split: option.splits)

lemma once_resolve_promises:
  "promises (try_catch (tuple_0 w v st)) q =
     (if w = Joiner q \<and> promises st q = None then Some (Resolved v) else promises st q)"
  by (cases w) (auto simp add: try_catch_def settle_promises split: option.splits)

lemma once_resolve_frame:
  "requestCache (try_catch (tuple_0 w v st)) = requestCache st"
  "pending (try_catch (tuple_0 w v st)) = pending st"
  "fetches (try_catch (tuple_0 w v st)) = fetches st"
  "returned (try_catch (tuple_0 w v st)) = returned st"
  by (cases w; simp add: try_catch_def split: option.splits)+

lemma forEach_reject_invoked:
  "invoked (forEach_reject ws e st) = invoked st @ map (\<lambda>w. (w, Rejected e)) ws"
  unfolding forEach_reject_def
  by (induction ws arbitrary: st) (simp_all add: once_reject_invoked)

lemma forEach_reject_console:
  "console (forEach_reject ws e st) = console st @ List.map_filter (\<lambda>w. raises_1 w e) ws"
  unfolding forEach_reject_def
  by (induction ws arbitrary: st)
     (simp_all add: once_reject_console List.map_filter_simps split: option.splits)

lemma forEach_reject_promises:
  "promises (forEach_reject ws e st) q =
     (if Joiner q \<in> set ws \<and> promises st q = None then Some (Rejected e) else promises st q)"
  unfolding forEach_reject_def
  by (induction ws arbitrary: st) (auto simp add: once_reject_promises)

lemma forEach_reject_frame:
  "requestCache (forEach_reject ws e st) = requestCache st"
  "pending (forEach_reject ws e st) = pending st"
  "fetches (forEach_reject ws e st) = fetches st"
  "returned (forEach_reject ws e st) = returned st"
  unfolding forEach_reject_def
  by (induction ws arbitrary: st; simp add: once_reject_frame)+

lemma forEach_resolve_invoked:
  "invoked (forEach_resolve ws v st) = invoked st @ map (\<lambda>w. (w, Resolved v)) ws"
  unfolding forEach_resolve_def
  by (induction ws arbitrary: st) (simp_all add: once_resolve_invoked)

lemma forEach_resolve_console:
  "console (forEach_resolve ws v st) = console st @ List.map_filter (\<lambda>w. raises_0 w v) ws"
  unfolding forEach_resolve_def
  by (induction ws arbitrary: st)
     (simp_all add: once_resolve_console List.map_filter_simps split: option.splits)

lemma forEach_resolve_promises:
  "promises (forEach_resolve ws v st) q =
     (if Joiner q \<in> set ws \<and> promises st q = None then Some (Resolved v) else promises st q)"
  unfolding forEach_resolve_def
  by (induction ws arbitrary: st) (auto simp add: once_resolve_promises)

lemma forEach_resolve_frame:
  "requestCache (forEach_resolve ws v st) = requestCache st"
  "pending (forEach_resolve ws v st) = pending st"
  "fetches (forEach_resolve ws v st) = fetches st"
  "returned (forEach_resolve ws v st) = returned st"
  unfolding forEach_resolve_def
  by (induction ws arbitrary: st; simp add: once_resolve_frame)+

lemma reject_waiters_present:
  assumes "isCacheableRequest type" and "requestCache st (cacheKey type url) = Some ws"
  shows "reject_waiters type url e st = cache_delete (cacheKey type url) (forEach_reject ws e st)"
  using assms by (simp add: reject_waiters_def)

lemma resolve_waiters_present:
  assumes "isCacheableRequest type" and "requestCache st (cacheKey type url) = Some ws"
  shows "resolve_waiters type url v st = cache_delete (cacheKey type url) (forEach_resolve ws v st)"
  using assms by (simp add: resolve_waiters_def)

lemma cache_delete_fields [simp]:
  "requestCache (cache_delete key st) = (requestCache st)(key := None)"
  "pending (cache_delete key st) = pending st"
  "fetches (cache_delete key st) = fetches st"
  "promises (cache_delete key st) = promises st"
  "returned (cache_delete key st) = returned st"
  "invoked (cache_delete key st) = invoked st"
  "console (cache_delete key st) = console st"
  by (simp_all add: cache_delete_def)

lemma finish_fields [simp]:
  "requestCache (finish c x st) = requestCache st"
  "pending (finish c x st) = pending st"
  "fetches (finish c x st) = fetches st"
  "promises (finish c x st) = promises st"
  "returned (finish c x st) = (returned st)(c \<mapsto> x)"
  "invoked (finish c x st) = invoked st"
  "console (finish c x st) = console st"
  by (simp_all add: finish_def)

lemma resume_Failed:
  assumes "pending st c = Some (type, url, m)"
  shows "customRequest_resume parser c (Failed e) st =
           finish c (Rejected e) (reject_waiters type url e (st\<lparr>pending := (pending st)(c := None)\<rparr>))"
  using assms by (simp add: customRequest_resume_def try_block_def)

lemma resume_Data:
  assumes "pending st c = Some (type, url, m)" and "ok response"
    and "convert m (bodyText response) = Data v"
  shows "customRequest_resume parser c (Responded response) st =
           finish c (Resolved v) (resolve_waiters type url v (st\<lparr>pending := (pending st)(c := None)\<rparr>))"
  using assms by (simp add: customRequest_resume_def try_block_def handleError_def)

text \<open>
  Claim C8. When the waiters of a list are notified, by \<^verbatim>\<open>tuple[0]\<close> with the value or
  by \<^verbatim>\<open>tuple[1]\<close> with the error, the functions are called in the order of the list,
  every one of them, and what a call raises goes to \<^verbatim>\<open>console.error\<close> and no further:
  the calls made are those of the whole list, and the console receives the exceptions
  raised, in order.
\<close>

theorem fan_out_in_order_past_exceptions:
  assumes "isCacheableRequest type" and "requestCache st (cacheKey type url) = Some ws"
  shows "invoked (resolve_waiters type url v st) = invoked st @ map (\<lambda>w. (w, Resolved v)) ws \<and>
         console (resolve_waiters type url v st) =
           console st @ List.map_filter (\<lambda>w. raises_0 w v) ws \<and>
         invoked (reject_waiters type url e st) = invoked st @ map (\<lambda>w. (w, Rejected e)) ws \<and>
         console (reject_waiters type url e st) =
           console st @ List.map_filter (\<lambda>w. raises_1 w e) ws"
  by (simp add: reject_waiters_present [OF assms] resolve_waiters_present [OF assms]
      forEach_reject_invoked forEach_reject_console forEach_resolve_invoked
      forEach_resolve_console)

theorem fan_out_in_order_past_exceptions_witness:
  "isCacheableRequest GET \<and>
   requestCache waiting (cacheKey GET ''/items'') = Some three_waiters \<and>
   invoked (resolve_waiters GET ''/items'' (Str ''ok'') waiting) =
     [(Joiner 2, Resolved (Str ''ok'')),
      (Custom 7 (\<lambda>v. Some listener_failed) (\<lambda>e. Some listener_failed), Resolved (Str ''ok'')),
      (Joiner 3, Resolved (Str ''ok''))] \<and>
   console (resolve_waiters GET ''/items'' (Str ''ok'') waiting) = [listener_failed] \<and>
   invoked (reject_waiters GET ''/items'' SyntaxError waiting) =
     [(Joiner 2, Rejected SyntaxError),
      (Custom 7 (\<lambda>v. Some listener_failed) (\<lambda>e. Some listener_failed), Rejected SyntaxError),
      (Joiner 3, Rejected SyntaxError)] \<and>
   console (reject_waiters GET ''/items'' SyntaxError waiting) = [listener_failed]"
proof -
  have h1: "isCacheableRequest GET"
    by (simp add: isCacheableRequest_def)
  have h2: "requestCache waiting (cacheKey GET ''/items'') = Some three_waiters"
    by (simp add: waiting_def init_def cacheKey_def)
  have before: "invoked waiting = []" "console waiting = []"
    by (simp_all add: waiting_def init_def)
  from fan_out_in_order_past_exceptions [OF h1 h2, of "Str ''ok''" SyntaxError] h1 h2 before
  show ?thesis
    by (simp add: three_waiters_def List.map_filter_simps)
qed

subsection \<open>The end of a request\<close>

text \<open>
  Claim C4. When the network call of a pending cacheable request fails (\<^verbatim>\<open>fetch\<close>
  rejects; there is no response), the reject function of every waiter of its list is
  called with the error raised, in order, so that every caller that joined and still
  waits is rejected with that error; the list is deleted from the cache; and the call
  itself is rejected with the same error.
\<close>

theorem transport_failure_rejects_waiters:
  assumes "pending st c = Some (type, url, m)"
    and "isCacheableRequest type"
    and "requestCache st (cacheKey type url) = Some ws"
  shows "invoked (customRequest_resume parser c (Failed e) st) =
           invoked st @ map (\<lambda>w. (w, Rejected e)) ws \<and>
         (\<forall>p. Joiner p \<in> set ws \<and> promises st p = None \<longrightarrow>
              promises (customRequest_resume parser c (Failed e) st) p = Some (Rejected e)) \<and>
         requestCache (customRequest_resume parser c (Failed e) st) (cacheKey type url) = None \<and>
         returned (customRequest_resume parser c (Failed e) st) c = Some (Rejected e)"
proof -
  let ?st0 = "st\<lparr>pending := (pending st)(c := None)\<rparr>"
  have slot: "requestCache ?st0 (cacheKey type url) = Some ws"
    using assms(3) by simp
  have eq: "customRequest_resume parser c (Failed e) st =
              finish c (Rejected e) (cache_delete (cacheKey type url) (forEach_reject ws e ?st0))"
    by (simp add: resume_Failed [OF assms(1)] reject_waiters_present [OF assms(2) slot])
  show ?thesis
    unfolding eq
    by (simp add: forEach_reject_invoked forEach_reject_promises forEach_reject_frame)
qed

theorem transport_failure_rejects_waiters_witness:
  "pending waiting 1 = Some (GET, ''/items'', AnArray) \<and>
   isCacheableRequest GET \<and>
   requestCache waiting (cacheKey GET ''/items'') = Some three_waiters \<and>
   promises waiting 2 = None \<and> promises waiting 3 = None \<and>
   invoked (customRequest_resume parseBackendError 1 (Failed (OtherError ''Failed to fetch'')) waiting) =
     map (\<lambda>w. (w, Rejected (OtherError ''Failed to fetch''))) three_waiters \<and>
   promises (customRequest_resume parseBackendError 1 (Failed (OtherError ''Failed to fetch'')) waiting) 2 =
     Some (Rejected (OtherError ''Failed to fetch'')) \<and>
   promises (customRequest_resume parseBackendError 1 (Failed (OtherError ''Failed to fetch'')) waiting) 3 =
     Some (Rejected (OtherError ''Failed to fetch'')) \<and>
   requestCache (customRequest_resume parseBackendError 1 (Failed (OtherError ''Failed to fetch'')) waiting)
     (cacheKey GET ''/items'') = None \<and>
   returned (customRequest_resume parseBackendError 1 (Failed (OtherError ''Failed to fetch'')) waiting) 1 =
     Some (Rejected (OtherError ''Failed to fetch''))"
proof -
  have h1: "pending waiting 1 = Some (GET, ''/items'', AnArray)"
    by (simp add: waiting_def init_def)
  have h2: "isCacheableRequest GET"
    by (simp add: isCacheableRequest_def)
  have h3: "requestCache waiting (cacheKey GET ''/items'') = Some three_waiters"
    by (simp add: waiting_def init_def cacheKey_def)
  have before: "invoked waiting = []" "promises waiting 2 = None" "promises waiting 3 = None"
    by (simp_all add: waiting_def init_def)
  have members: "Joiner 2 \<in> set three_waiters" "Joiner 3 \<in> set three_waiters"
    by (simp_all add: three_waiters_def)
  from transport_failure_rejects_waiters
         [OF h1 h2 h3, of parseBackendError "OtherError ''Failed to fetch''"]
       h1 h2 h3 before members
  show ?thesis by simp
qed

lemma call_joins:
  assumes "isCacheableRequest type" and "requestCache st (cacheKey type url) = Some ws"
  shows "customRequest_call p type url body m st =
           st\<lparr>requestCache := (requestCache st)(cacheKey type url \<mapsto> ws @ [Joiner p])\<rparr>"
  using assms by (simp add: customRequest_call_def)

lemma JSON_parse_numbers: "JSON_parse ''[1,2]'' = Inr (JArray [JNumber ''1'', JNumber ''2''])"
  by code_simp

text \<open>
  Claim C9. The cache key is made of the method and the URL only. While a cacheable
  request is pending and the cache has its list, a call with the same method and URL,
  whatever its body and its \<^verbatim>\<open>modelConstructor\<close>, makes no network call and joins that
  list; and when the pending request ends with a value, which is the text converted for
  the \<^verbatim>\<open>modelConstructor\<close> of the pending request, the caller that joined is resolved
  with that same value, as is the pending call itself.
\<close>

theorem joiner_gets_owner_conversion:
  assumes "pending st c = Some (type, url, m)"
    and "isCacheableRequest type"
    and "requestCache st (cacheKey type url) = Some ws"
    and "promises st p = None"
    and "ok response"
    and "convert m (bodyText response) = Data v"
  shows "fetches (customRequest_call p type url body' m' st) = fetches st \<and>
         requestCache (customRequest_call p type url body' m' st) (cacheKey type url) =
           Some (ws @ [Joiner p]) \<and>
         promises (customRequest_resume parser c (Responded response)
                    (customRequest_call p type url body' m' st)) p = Some (Resolved v) \<and>
         returned (customRequest_resume parser c (Responded response)
                    (customRequest_call p type url body' m' st)) c = Some (Resolved v)"
proof -
  let ?st1 = "customRequest_call p type url body' m' st"
  let ?st0 = "?st1\<lparr>pending := (pending ?st1)(c := None)\<rparr>"
  have st1: "?st1 = st\<lparr>requestCache := (requestCache st)(cacheKey type url \<mapsto> ws @ [Joiner p])\<rparr>"
    by (rule call_joins [OF assms(2,3)])
  have pend: "pending ?st1 c = Some (type, url, m)"
    using assms(1) by (simp add: st1)
  have slot: "requestCache ?st0 (cacheKey type url) = Some (ws @ [Joiner p])"
    by (simp add: st1)
  have prom: "promises ?st0 p = None"
    using assms(4) by (simp add: st1)
  have eq: "customRequest_resume parser c (Responded response) ?st1 =
              finish c (Resolved v)
                (cache_delete (cacheKey type url) (forEach_resolve (ws @ [Joiner p]) v ?st0))"
    by (simp only: resume_Data [OF pend assms(5,6)] resolve_waiters_present [OF assms(2) slot])
  have a: "fetches ?st1 = fetches st" by (simp add: st1)
  have b: "requestCache ?st1 (cacheKey type url) = Some (ws @ [Joiner p])" by (simp add: st1)
  have c: "promises (customRequest_resume parser c (Responded response) ?st1) p = Some (Resolved v)"
    unfolding eq using prom by (simp add: forEach_resolve_promises)
  have d: "returned (customRequest_resume parser c (Responded response) ?st1) c = Some (Resolved v)"
    unfolding eq by simp
  from a b c d show ?thesis by blast
qed

theorem joiner_gets_owner_conversion_witness:
  "pending waiting 1 = Some (GET, ''/items'', AnArray) \<and>
   isCacheableRequest GET \<and>
   requestCache waiting (cacheKey GET ''/items'') = Some three_waiters \<and>
   promises waiting 4 = None \<and>
   ok \<lparr>status = 200, statusText = ''OK'', bodyText = ''[1,2]''\<rparr> \<and>
   convert AnArray ''[1,2]'' = Data (Parsed (JArray [JNumber ''1'', JNumber ''2''])) \<and>
   fetches (customRequest_call 4 GET ''/items'' (Some ''{\"page\":2}'') ABoolean waiting) = [] \<and>
   requestCache (customRequest_call 4 GET ''/items'' (Some ''{\"page\":2}'') ABoolean waiting)
     (cacheKey GET ''/items'') = Some (three_waiters @ [Joiner 4]) \<and>
   promises (customRequest_resume parseBackendError 1
              (Responded \<lparr>status = 200, statusText = ''OK'', bodyText = ''[1,2]''\<rparr>)
              (customRequest_call 4 GET ''/items'' (Some ''{\"page\":2}'') ABoolean waiting)) 4 =
     Some (Resolved (Parsed (JArray [JNumber ''1'', JNumber ''2'']))) \<and>
   returned (customRequest_resume parseBackendError 1
              (Responded \<lparr>status = 200, statusText = ''OK'', bodyText = ''[1,2]''\<rparr>)
              (customRequest_call 4 GET ''/items'' (Some ''{\"page\":2}'') ABoolean waiting)) 1 =
     Some (Resolved (Parsed (JArray [JNumber ''1'', JNumber ''2''])))"
proof -
  have h1: "pending waiting 1 = Some (GET, ''/items'', AnArray)"
    by (simp add: waiting_def init_def)
  have h2: "isCacheableRequest GET"
    by (simp add: isCacheableRequest_def)
  have h3: "requestCache waiting (cacheKey GET ''/items'') = Some three_waiters"
    by (simp add: waiting_def init_def cacheKey_def)
  have h4: "promises waiting 4 = None"
    by (simp add: waiting_def init_def)
  have h5: "ok \<lparr>status = 200, statusText = ''OK'', bodyText = ''[1,2]''\<rparr>"
    by (simp add: ok_def)
  have h6: "convert AnArray (bodyText \<lparr>status = 200, statusText = ''OK'', bodyText = ''[1,2]''\<rparr>) =
              Data (Parsed (JArray [JNumber ''1'', JNumber ''2'']))"
    by (simp add: convert_def from_JSON_def isArray_def JSON_parse_numbers)
  have before: "fetches waiting = []"
    by (simp add: waiting_def init_def)
  from joiner_gets_owner_conversion
         [OF h1 h2 h3 h4 h5 h6, of "Some ''{\"page\":2}''" ABoolean parseBackendError]
       h1 h2 h3 h4 h5 h6 before
  show ?thesis by simp
qed

subsection \<open>A response that is not JSON\<close>

text \<open>
  What does hold: a request that is not cacheable makes its own network call and leaves
  the cache as it is; a cacheable request whose key is not in the cache makes the network
  call and records an empty list, and two cacheable requests have the same key only if
  they have the same method and URL; and when a pending cacheable request ends by the
  handler of the \<^verbatim>\<open>try\<close> block, by the error of the conversion's last branch or with
  a value, its key is no longer in the cache. Notifying the waiters of a key that the
  cache does not have changes nothing.
\<close>

lemma uncacheable_call_fetches:
  assumes "\<not> isCacheableRequest type"
  shows "fetches (customRequest_call c type url body m st) = fetches st @ [(c, type, url, body)]"
    and "requestCache (customRequest_call c type url body m st) = requestCache st"
  using assms by (simp_all add: customRequest_call_def dispatch_def)

lemma first_cacheable_call_fetches:
  assumes "isCacheableRequest type" and "requestCache st (cacheKey type url) = None"
  shows "fetches (customRequest_call c type url body m st) = fetches st @ [(c, type, url, body)]"
    and "requestCache (customRequest_call c type url body m st) (cacheKey type url) = Some []"
  using assms by (simp_all add: customRequest_call_def dispatch_def)

lemma cacheKey_inject:
  assumes "isCacheableRequest type" and "isCacheableRequest type'"
    and "cacheKey type url = cacheKey type' url'"
  shows "type = type' \<and> url = url'"
  using assms by (cases type; cases type') (simp_all add: isCacheableRequest_def cacheKey_def)

lemma no_slot_no_op:
  assumes "requestCache st (cacheKey type url) = None"
  shows "reject_waiters type url e st = st" and "resolve_waiters type url v st = st"
  using assms by (simp_all add: reject_waiters_def resolve_waiters_def)

lemma reject_waiters_deletes:
  "isCacheableRequest type \<Longrightarrow> requestCache (reject_waiters type url e st) (cacheKey type url) = None"
  by (simp add: reject_waiters_def split: option.splits)

lemma resolve_waiters_deletes:
  "isCacheableRequest type \<Longrightarrow> requestCache (resolve_waiters type url v st) (cacheKey type url) = None"
  by (simp add: resolve_waiters_def split: option.splits)

lemma settlement_deletes_slot:
  assumes "pending st c = Some (type, url, m)" and "isCacheableRequest type"
    and "try_block parser outcome = Inl e
         \<or> (\<exists>primitive. try_block parser outcome = Inr primitive
               \<and> (\<forall>x. convert m primitive \<noteq> Uncaught x))"
  shows "requestCache (customRequest_resume parser c outcome st) (cacheKey type url) = None"
  using assms
  by (cases "convert m (projr (try_block parser outcome))")
     (auto simp add: customRequest_resume_def Let_def reject_waiters_deletes
        resolve_waiters_deletes)

text \<open>
  Claim C1 says that of concurrent GET or HEAD requests with the same method and URL one
  makes the network call and every caller gets the same value or the same error. The code
  breaks this when the response has a 2xx status and a text that starts with \<^verbatim>\<open>[\<close>
  (or \<^verbatim>\<open>{\<close>) and is not JSON: \<^verbatim>\<open>JSON.parse\<close> raises outside the \<^verbatim>\<open>try\<close> block,
  the call that made the request is rejected with the \<^verbatim>\<open>SyntaxError\<close>, and no waiter is
  notified. In the run below, call 1 and call 2 ask for the same URL and one network call
  is made; call 1 is rejected; call 2 is never settled (no function of a waiter was
  called, and no call is pending that could do it).
\<close>

theorem joiner_hangs_when_text_is_not_JSON:
  "map fst (fetches hung_joiner) = [1] \<and>
   returned hung_joiner 1 = Some (Rejected SyntaxError) \<and>
   promises hung_joiner 2 = None \<and>
   returned hung_joiner 2 = None \<and>
   invoked hung_joiner = [] \<and>
   pending hung_joiner = Map.empty \<and>
   requestCache hung_joiner ''GET /items'' = Some [Joiner 2]"
  by (simp add: hung_joiner_def JSON_parse_not_JSON run_def init_def customRequest_call_def dispatch_def
      isCacheableRequest_def cacheKey_def customRequest_resume_def try_block_def handleError_def
      ok_def convert_def from_JSON_def isArray_def not_JSON_def finish_def)

text \<open>
  Claim C2 says that after any settlement of a cacheable request its key is no longer in
  the cache, so that the next request with that key makes a network call. The code breaks
  this in the same case: after the response that is not JSON, call 1 is rejected and its
  list stays in the cache. In the run below, call 3 comes after that: it makes no network
  call, joins the list that nothing will ever notify, and is never settled.
\<close>

theorem slot_stays_when_text_is_not_JSON:
  "returned stale_slot 1 = Some (Rejected SyntaxError) \<and>
   fetches stale_slot = [(1, GET, ''/items'', None)] \<and>
   requestCache stale_slot ''GET /items'' = Some [Joiner 3] \<and>
   pending stale_slot = Map.empty \<and>
   promises stale_slot 3 = None \<and>
   returned stale_slot 3 = None"
  by (simp add: stale_slot_def JSON_parse_not_JSON run_def init_def customRequest_call_def dispatch_def
      isCacheableRequest_def cacheKey_def customRequest_resume_def try_block_def handleError_def
      ok_def convert_def from_JSON_def isArray_def not_JSON_def finish_def)

end
